theory Spec2Isabelle
  imports Complex_Main
begin

section \<open>Shared vocabulary: strings, browser objects, effects\<close>

text \<open>
  The development embeds three pieces of the SMARTII front end:
  \<^item> \<open>BrowserWakeWordDetector\<close> (the wake-word class appended to \<open>script.js\<close>),
  \<^item> \<open>FullDuplexAudioEngine\<close> (the full-duplex audio engine),
  \<^item> the recognition and speech handlers of \<open>script.js\<close> that work on the global
    \<open>state\<close> object.

  JavaScript strings are modelled as lists of 8-bit characters, read as the code units
  U+0000 .. U+00FF; JavaScript numbers that take part in arithmetic are IEEE 754
  double-precision values.  Object fields become record fields, a method becomes a function
  from the object to the updated object together with the list of things it did to the
  outside world, in program order.  Purely informational \<open>console.log\<close> lines and
  cosmetic DOM updates are left out or summarised by one \<open>Ui\<close> effect; warnings and
  errors written to the console are kept.
\<close>

subsection \<open>String primitives\<close>

text \<open>\<open>String.prototype.toLowerCase\<close> on code units below 256: A-Z and the Latin-1
  capitals (all of U+00C0 .. U+00DE but the multiplication sign) move up by 32.\<close>

definition lower_char :: "char \<Rightarrow> char" where
  "lower_char c =
     (let n = (of_char c :: nat)
      in if (65 \<le> n \<and> n \<le> 90) \<or> (192 \<le> n \<and> n \<le> 222 \<and> n \<noteq> 215)
         then char_of (n + 32) else c)"

definition toLowerCase :: "string \<Rightarrow> string" where
  "toLowerCase s = map lower_char s"



text \<open>White space as \<open>trim\<close> and the regular expression class \<open>\s\<close> see it, below 256:
  TAB, LF, VT, FF, CR, SPACE and NBSP.\<close>

definition is_ws :: "char \<Rightarrow> bool" where
  "is_ws c = (let n = (of_char c :: nat) in (9 \<le> n \<and> n \<le> 13) \<or> n = 32 \<or> n = 160)"

definition trim :: "string \<Rightarrow> string" where
  "trim s = rev (dropWhile is_ws (rev (dropWhile is_ws s)))"

fun startsWith :: "string \<Rightarrow> string \<Rightarrow> bool" where
  "startsWith t [] = True"
| "startsWith [] (p # ps) = False"
| "startsWith (c # cs) (p # ps) = (c = p \<and> startsWith cs ps)"

text \<open>\<open>text.includes(w)\<close>: \<open>w\<close> occurs in \<open>text\<close> as a contiguous substring.\<close>

fun str_includes :: "string \<Rightarrow> string \<Rightarrow> bool" where
  "str_includes [] w = startsWith [] w"
| "str_includes (c # cs) w = (startsWith (c # cs) w \<or> str_includes cs w)"

subsection \<open>The regular expressions of the fuzzy patterns\<close>

text \<open>The five literals in \<open>_isWakeWord\<close> use only literal characters and \<open>\s+\<close>, under
  the flag \<open>i\<close>.  \<open>rx_test\<close> is \<open>RegExp.prototype.test\<close> for that fragment: a match may
  start at any position, \<open>\s+\<close> takes one or more white-space characters, and literals
  are compared up to letter case.\<close>

datatype rx = Lit char | WsPlus

fun match_here :: "rx list \<Rightarrow> string \<Rightarrow> bool" where
  "match_here [] s = True"
| "match_here (Lit p # r) [] = False"
| "match_here (Lit p # r) (c # cs) = (lower_char c = lower_char p \<and> match_here r cs)"
| "match_here (WsPlus # r) [] = False"
| "match_here (WsPlus # r) (c # cs) =
     (is_ws c \<and> (match_here (WsPlus # r) cs \<or> match_here r cs))"

fun rx_test :: "rx list \<Rightarrow> string \<Rightarrow> bool" where
  "rx_test r [] = match_here r []"
| "rx_test r (c # cs) = (match_here r (c # cs) \<or> rx_test r cs)"

definition two_words :: "string \<Rightarrow> string \<Rightarrow> rx list" where
  "two_words a b = map Lit a @ [WsPlus] @ map Lit b"

definition fuzzyPatterns :: "rx list list" where
  "fuzzyPatterns =
     [two_words ''hey'' ''smart'',
      two_words ''hello'' ''smart'',
      two_words ''hi'' ''smart'',
      two_words ''okay'' ''smart'',
      map Lit ''computer'']"

subsection \<open>Numbers: IEEE 754 double precision\<close>

text \<open>
  A JavaScript number is NaN, one of the two infinities, or a finite double, given here
  by its exact rational value.  The sign of zero is not kept: the code modelled here
  only squares, adds, divides by a length, takes square roots and compares, and none
  of these tells the two zeros apart.  \<open>to_double\<close> rounds a rational to the nearest
  double, ties to even, with gradual underflow below \<open>2^-1022\<close> and overflow to
  infinity from \<open>2^1024\<close> on; every arithmetic operation is the exact operation
  followed by that rounding, and \<open>Math.sqrt\<close> is taken to be correctly rounded, as the
  hardware instruction is.
\<close>

datatype jsnum = NaN | PInf | NInf | Fin rat

text \<open>\<open>ilog2 n\<close> is the position of the highest bit of a positive integer \<open>n\<close>,
  \<open>isqrt n\<close> the integer part of the square root of \<open>n\<close>, and \<open>pow2 k\<close> the power
  \<open>2^k\<close> for an exponent of either sign.\<close>

function ilog2 :: "int \<Rightarrow> int" where
  "ilog2 n = (if n < 2 then 0 else 1 + ilog2 (n div 2))"
  by auto
termination by (relation "measure nat") auto

function isqrt :: "int \<Rightarrow> int" where
  "isqrt n =
     (if n < 2 then n
      else (let r = 2 * isqrt (n div 4)
            in if (r + 1) * (r + 1) \<le> n then r + 1 else r))"
  by auto
termination by (relation "measure nat") auto

function pow2i :: "int \<Rightarrow> int" where
  "pow2i k =
     (if k \<le> 0 then 1
      else (let h = pow2i (k div 2) in if even k then h * h else 2 * h * h))"
  by auto
termination by (relation "measure nat") auto

definition pow2 :: "int \<Rightarrow> rat" where
  "pow2 k = (if 0 \<le> k then of_int (pow2i k) else 1 / of_int (pow2i (- k)))"

text \<open>The binary exponent of a rational other than zero: the \<open>e\<close> with
  \<open>2^e \<le> |a| < 2^(e+1)\<close>.\<close>

definition ilogb :: "rat \<Rightarrow> int" where
  "ilogb a =
     (let (p, q) = quotient_of \<bar>a\<bar>;
          d = ilog2 p - ilog2 q
      in if pow2 d \<le> \<bar>a\<bar> then d else d - 1)"

definition round_half_even :: "rat \<Rightarrow> int" where
  "round_half_even r =
     (let f = \<lfloor>r\<rfloor>; d = r - of_int f
      in if d < 1 / 2 then f
         else if 1 / 2 < d then f + 1
         else if even f then f else f + 1)"

definition to_double :: "rat \<Rightarrow> jsnum" where
  "to_double x =
     (if x = 0 then Fin 0
      else (let e = max (ilogb x) (- 1022);
                u = pow2 (e - 52);
                m = of_int (round_half_even (\<bar>x\<bar> / u)) * u
            in if pow2 1024 \<le> m then (if 0 < x then PInf else NInf)
               else Fin (if 0 < x then m else - m)))"

fun signed_inf :: "bool \<Rightarrow> jsnum" where
  "signed_inf positive = (if positive then PInf else NInf)"

fun dadd :: "jsnum \<Rightarrow> jsnum \<Rightarrow> jsnum" where
  "dadd NaN y = NaN"
| "dadd x NaN = NaN"
| "dadd PInf NInf = NaN"
| "dadd NInf PInf = NaN"
| "dadd PInf y = PInf"
| "dadd NInf y = NInf"
| "dadd x PInf = PInf"
| "dadd x NInf = NInf"
| "dadd (Fin a) (Fin b) = to_double (a + b)"

fun dneg :: "jsnum \<Rightarrow> jsnum" where
  "dneg NaN = NaN"
| "dneg PInf = NInf"
| "dneg NInf = PInf"
| "dneg (Fin a) = Fin (- a)"

definition dsub :: "jsnum \<Rightarrow> jsnum \<Rightarrow> jsnum" where
  "dsub x y = dadd x (dneg y)"

fun dmul :: "jsnum \<Rightarrow> jsnum \<Rightarrow> jsnum" where
  "dmul NaN y = NaN"
| "dmul x NaN = NaN"
| "dmul (Fin a) (Fin b) = to_double (a * b)"
| "dmul (Fin a) PInf = (if a = 0 then NaN else signed_inf (0 < a))"
| "dmul (Fin a) NInf = (if a = 0 then NaN else signed_inf (a < 0))"
| "dmul PInf (Fin b) = (if b = 0 then NaN else signed_inf (0 < b))"
| "dmul NInf (Fin b) = (if b = 0 then NaN else signed_inf (b < 0))"
| "dmul PInf PInf = PInf"
| "dmul NInf NInf = PInf"
| "dmul PInf NInf = NInf"
| "dmul NInf PInf = NInf"

text \<open>Division; a zero divisor counts as positive zero (the only divisor here is a
  length).\<close>

fun ddiv :: "jsnum \<Rightarrow> jsnum \<Rightarrow> jsnum" where
  "ddiv NaN y = NaN"
| "ddiv x NaN = NaN"
| "ddiv (Fin a) (Fin b) =
     (if b = 0 then (if a = 0 then NaN else signed_inf (0 < a)) else to_double (a / b))"
| "ddiv (Fin a) PInf = Fin 0"
| "ddiv (Fin a) NInf = Fin 0"
| "ddiv PInf (Fin b) = signed_inf (0 \<le> b)"
| "ddiv NInf (Fin b) = signed_inf (b < 0)"
| "ddiv PInf PInf = NaN"
| "ddiv PInf NInf = NaN"
| "ddiv NInf PInf = NaN"
| "ddiv NInf NInf = NaN"

text \<open>The double nearest to the square root of a positive rational: with \<open>u\<close> the
  spacing of the doubles around the root, the root lies between \<open>n * u\<close> and
  \<open>(n + 1) * u\<close>, and the comparison of \<open>(2 * n + 1)^2\<close> with \<open>4 * t\<close> says which of
  the two is nearer.\<close>

definition sqrt_double :: "rat \<Rightarrow> rat" where
  "sqrt_double q =
     (let e = ilogb q div 2;
          u = pow2 (e - 52);
          t = q / (u * u);
          n = isqrt \<lfloor>t\<rfloor>;
          n' = (if of_int ((2 * n + 1) * (2 * n + 1)) < 4 * t then n + 1
                else if of_int ((2 * n + 1) * (2 * n + 1)) = 4 * t
                then (if even n then n else n + 1)
                else n)
      in of_int n' * u)"

fun dsqrt :: "jsnum \<Rightarrow> jsnum" where
  "dsqrt NaN = NaN"
| "dsqrt PInf = PInf"
| "dsqrt NInf = NaN"
| "dsqrt (Fin q) = (if q < 0 then NaN else if q = 0 then Fin 0 else Fin (sqrt_double q))"

text \<open>The comparison \<open>x > y\<close>: false as soon as one side is NaN.\<close>

fun js_gt :: "jsnum \<Rightarrow> jsnum \<Rightarrow> bool" where
  "js_gt NaN y = False"
| "js_gt x NaN = False"
| "js_gt PInf PInf = False"
| "js_gt PInf y = True"
| "js_gt NInf y = False"
| "js_gt (Fin a) PInf = False"
| "js_gt (Fin a) NInf = True"
| "js_gt (Fin a) (Fin b) = (b < a)"

subsection \<open>The browser's SpeechRecognition object\<close>

text \<open>What the code relies on from the Web Speech API: \<open>start()\<close> throws an
  \<open>InvalidStateError\<close> unless the object is idle (Chrome's message contains
  "already started"); \<open>stop()\<close> never throws, and a started object stays busy until the
  browser delivers \<open>onend\<close>.\<close>

datatype js_error = JsError string

fun message :: "js_error \<Rightarrow> string" where
  "message (JsError m) = m"

datatype sr_state = SRIdle | SRStarted | SRStopping

definition sr_start :: "sr_state \<Rightarrow> js_error + sr_state" where
  "sr_start r =
     (if r = SRIdle then Inr SRStarted
      else Inl (JsError ''recognition has already started''))"

definition sr_stop :: "sr_state \<Rightarrow> js_error + sr_state" where
  "sr_stop r = Inr (if r = SRStarted then SRStopping else r)"

subsection \<open>Timers and effects\<close>

text \<open>Every \<open>setTimeout\<close> of the modelled code, named by what its callback does.\<close>

datatype timer =
    VadReset
  | NoSpeechRestartContinuous
  | NoSpeechRestartSingle
  | OnEndRestart
  | RetryStartListening bool
  | ForceRetryStartListening bool
  | ProcessMessage string
  | HideTranscription
  | ResumeAfterSpeech
  | ResumeAfterSpeechError
  | WakePause

datatype effect =
    ConsoleLog string
  | ConsoleWarn string
  | ConsoleError string
  | SynthCancel
  | SynthSpeak string
  | WsSend string
  | InterruptCallbacks string
  | VadCallbacks
  | OnEnd nat
  | WakeWordCallback string
  | AudioContextResume
  | SetTimeout timer nat
  | RecognitionStart
  | RecognitionStop
  | WakeRecognitionStart
  | WakeRecognitionStop
  | UpdateStatus string string
  | Alert string
  | Ui string
  | AddMessage string string
  | BackendRequest string
  | Uncaught js_error

text \<open>A value a JavaScript function hands back where the claim is about its type.\<close>

datatype jsval = JSBool bool | JSString string

section \<open>BrowserWakeWordDetector\<close>

record detector =
  isActive :: bool
  recognition :: "sr_state option"
  wakeWords :: "string list"
  onWakeWordCallback :: bool
  sensitivity :: jsnum

text \<open>The constructor.\<close>

definition new_detector :: detector where
  "new_detector =
     \<lparr>isActive = False, recognition = None,
      wakeWords = [''hey smartii'', ''hey smart'', ''smartii'', ''computer''],
      onWakeWordCallback = False, sensitivity = to_double (7 / 10)\<rparr>"

text \<open>\<open>initialize()\<close>; the argument says whether the browser has a SpeechRecognition
  constructor.\<close>

definition initialize :: "detector \<Rightarrow> bool \<Rightarrow> bool \<times> detector \<times> effect list" where
  "initialize d supported =
     (if \<not> supported
      then (False, d, [ConsoleError ''Speech recognition not supported in this browser''])
      else (True, d\<lparr>recognition := Some SRIdle\<rparr>, []))"

text \<open>\<open>start()\<close> and \<open>stop()\<close>.  The result is a sum so that an exception leaving the
  method would be a value \<open>Inl\<close>; both methods catch what the browser call throws.\<close>

definition start :: "detector \<Rightarrow> js_error + (bool \<times> detector \<times> effect list)" where
  "start d =
     (case recognition d of
        None \<Rightarrow> Inr (False, d, [ConsoleError ''Recognition not initialized''])
      | Some r \<Rightarrow>
          if isActive d
          then Inr (False, d, [ConsoleWarn ''Wake word detection already active''])
          else (let d1 = d\<lparr>isActive := True\<rparr> in
                case sr_start r of
                  Inr r' \<Rightarrow>
                    Inr (True, d1\<lparr>recognition := Some r'\<rparr>,
                         [WakeRecognitionStart, ConsoleLog ''Wake word listening started''])
                | Inl e \<Rightarrow>
                    Inr (False, d1, [ConsoleError ''Failed to start wake word detection''])))"

definition stop :: "detector \<Rightarrow> js_error + (unit \<times> detector \<times> effect list)" where
  "stop d =
     (if \<not> isActive d then Inr ((), d, [])
      else (let d1 = d\<lparr>isActive := False\<rparr> in
            case recognition d1 of
              None \<Rightarrow> Inr ((), d1, [ConsoleLog ''Wake word detection stopped''])
            | Some r \<Rightarrow>
                (case sr_stop r of
                   Inr r' \<Rightarrow>
                     Inr ((), d1\<lparr>recognition := Some r'\<rparr>,
                          [WakeRecognitionStop, ConsoleLog ''Wake word detection stopped''])
                 | Inl e \<Rightarrow> Inr ((), d1, [ConsoleLog ''Wake word detection stopped'']))))"

text \<open>\<open>_isWakeWord(text)\<close>: the loop over \<open>this.wakeWords\<close>, then the loop over the
  fuzzy patterns.  The method is given the detector and hands it back, so that a write
  to \<open>this\<close> would show.\<close>

fun direct_match :: "string list \<Rightarrow> string \<Rightarrow> bool" where
  "direct_match [] text = False"
| "direct_match (wakeWord # rest) text =
     (if str_includes text wakeWord then True else direct_match rest text)"

fun fuzzy_match :: "rx list list \<Rightarrow> string \<Rightarrow> bool" where
  "fuzzy_match [] text = False"
| "fuzzy_match (pattern # rest) text =
     (if rx_test pattern text then True else fuzzy_match rest text)"

definition isWakeWord :: "detector \<Rightarrow> string \<Rightarrow> jsval \<times> detector \<times> effect list" where
  "isWakeWord d text0 =
     (let text = trim (toLowerCase text0) in
      if direct_match (wakeWords d) text then (JSBool True, d, [])
      else if fuzzy_match fuzzyPatterns text then (JSBool True, d, [])
      else (JSBool False, d, []))"

text \<open>\<open>recognition.onresult\<close> of the detector: one transcript per result, from
  \<open>event.resultIndex\<close> on.  The registered callback is opaque here; it is handed the
  transcript.\<close>

fun wake_onresult :: "detector \<Rightarrow> string list \<Rightarrow> detector \<times> effect list" where
  "wake_onresult d [] = (d, [])"
| "wake_onresult d (t # ts) =
     (let transcript = trim (toLowerCase t) in
      if fst (isWakeWord d transcript) = JSBool True
      then (case stop d of
              Inl e \<Rightarrow> (d, [Uncaught e])
            | Inr (u, d1, fx1) \<Rightarrow>
                (let (d2, fx2) = wake_onresult d1 ts
                 in (d2,
                     [ConsoleLog ''Wake word detected'']
                     @ (if onWakeWordCallback d then [WakeWordCallback transcript] else [])
                     @ fx1 @ [SetTimeout WakePause 1000] @ fx2)))
      else wake_onresult d ts)"

text \<open>The callback of the one-second timer that \<open>onresult\<close> sets after a match.\<close>

definition wake_pause :: "detector \<Rightarrow> detector \<times> effect list" where
  "wake_pause d =
     (if isActive d
      then (case start d of Inl e \<Rightarrow> (d, [Uncaught e]) | Inr (ok, d', fx) \<Rightarrow> (d', fx))
      else (d, []))"

text \<open>\<open>onWakeWord(callback)\<close> and \<open>addWakeWord(word)\<close>.\<close>

definition onWakeWord :: "detector \<Rightarrow> detector" where
  "onWakeWord d = d\<lparr>onWakeWordCallback := True\<rparr>"

definition addWakeWord :: "detector \<Rightarrow> string \<Rightarrow> detector \<times> effect list" where
  "addWakeWord d word =
     (if toLowerCase word \<notin> set (wakeWords d)
      then (d\<lparr>wakeWords := wakeWords d @ [toLowerCase word]\<rparr>, [ConsoleLog ''Added wake word''])
      else (d, []))"

section \<open>FullDuplexAudioEngine\<close>

text \<open>
  An audio frame is the list of its samples (the elements of the \<open>Float32Array\<close>, each
  of them a double), and the RMS value and the threshold are doubles.  \<open>wsOpen\<close> stands
  for the test
  \<open>this.ws && this.ws.readyState === WebSocket.OPEN\<close> and \<open>synthSpeaking\<close> for
  \<open>window.speechSynthesis.speaking\<close>; both belong to the browser, and the second is
  taken to turn true when the browser reports the start of playback.  An utterance is its
  text together with the \<open>onEnd\<close> callback its handlers close over (callbacks are
  numbered so that they can be told apart in the effects).  Registered callbacks are
  opaque: they are assumed not to call back into the engine.
\<close>

datatype ctx_state = CtxSuspended | CtxRunning

text \<open>How \<open>initialize()\<close> can go: \<open>getUserMedia\<close> or the creation of the audio context
  throws; the context is there but building the audio graph throws; all of it succeeds.
  The context comes with the state the browser gives it.\<close>

datatype init_outcome = MediaDenied | GraphFailed ctx_state | InitOk ctx_state

type_synonym utterance = "string \<times> nat option"

record engine =
  wsOpen :: bool
  synthSpeaking :: bool
  audioContext :: "ctx_state option"
  isPlaying :: bool
  currentUtterance :: "utterance option"
  isCapturing :: bool
  vadDetected :: bool
  isSpeaking :: bool
  isListening :: bool
  isInterrupted :: bool
  vadThreshold :: jsnum
  vadConsecutiveFrames :: nat
  vadFrameCount :: nat
  lastSendTime :: "int option"

text \<open>The constructor; the argument says whether the web socket it is given is open.\<close>

definition new_engine :: "bool \<Rightarrow> engine" where
  "new_engine ws =
     \<lparr>wsOpen = ws, synthSpeaking = False, audioContext = None,
      isPlaying = False, currentUtterance = None,
      isCapturing = False, vadDetected = False,
      isSpeaking = False, isListening = False, isInterrupted = False,
      vadThreshold = to_double (1 / 100), vadConsecutiveFrames = 3, vadFrameCount = 0,
      lastSendTime = None\<rparr>"

text \<open>\<open>initialize()\<close>, given how the browser calls inside it go.\<close>

definition engine_initialize :: "engine \<Rightarrow> init_outcome \<Rightarrow> bool \<times> engine \<times> effect list" where
  "engine_initialize e outcome =
     (case outcome of
        MediaDenied \<Rightarrow> (False, e, [ConsoleError ''Audio initialization failed''])
      | GraphFailed c \<Rightarrow>
          (False, e\<lparr>audioContext := Some c\<rparr>, [ConsoleError ''Audio initialization failed''])
      | InitOk c \<Rightarrow>
          (True, e\<lparr>audioContext := Some c, isCapturing := True\<rparr>,
           [ConsoleLog ''Audio system initialized - Full duplex ready'']))"

definition engine_startListening :: "engine \<Rightarrow> bool \<times> engine \<times> effect list" where
  "engine_startListening e =
     (case audioContext e of
        None \<Rightarrow> (False, e, [ConsoleError ''Audio context not initialized''])
      | Some c \<Rightarrow>
          if isListening e then (False, e, [ConsoleWarn ''Already listening''])
          else (True, e\<lparr>isListening := True, vadFrameCount := 0\<rparr>,
                (if c = CtxSuspended then [AudioContextResume] else [])
                @ [ConsoleLog ''Listening started - VAD active'']))"

definition engine_stopListening :: "engine \<Rightarrow> engine \<times> effect list" where
  "engine_stopListening e =
     (e\<lparr>isListening := False, vadFrameCount := 0\<rparr>, [ConsoleLog ''Listening stopped''])"

definition stopSpeaking :: "engine \<Rightarrow> engine \<times> effect list" where
  "stopSpeaking e =
     (e\<lparr>synthSpeaking := False, isSpeaking := False, isPlaying := False,
        currentUtterance := None\<rparr>,
      (if synthSpeaking e then [SynthCancel] else []) @ [ConsoleLog ''Speaking STOPPED''])"

definition startSpeaking :: "engine \<Rightarrow> string \<Rightarrow> nat option \<Rightarrow> engine \<times> effect list" where
  "startSpeaking e text onEnd =
     (if text = [] then (e, [])
      else (let (e1, fx1) = stopSpeaking e;
                e2 = e1\<lparr>isSpeaking := True, isInterrupted := False,
                        currentUtterance := Some (text, onEnd)\<rparr>
            in (e2, fx1 @ [SynthSpeak text, ConsoleLog ''Speaking''])))"

text \<open>The three handlers \<open>startSpeaking\<close> installs on the utterance.  \<open>onEnd\<close> is the
  callback of the call that created the utterance.\<close>

definition utterance_onstart :: "engine \<Rightarrow> engine \<times> effect list" where
  "utterance_onstart e =
     (e\<lparr>isPlaying := True\<rparr>,
      [ConsoleLog ''Speaking started''] @ (if wsOpen e then [WsSend ''tts_started''] else []))"

definition utterance_onend :: "engine \<Rightarrow> nat option \<Rightarrow> engine \<times> effect list" where
  "utterance_onend e onEnd =
     (e\<lparr>isSpeaking := False, isPlaying := False, currentUtterance := None\<rparr>,
      [ConsoleLog ''Speaking ended'']
      @ (if wsOpen e then [WsSend ''tts_ended''] else [])
      @ (case onEnd of
           None \<Rightarrow> []
         | Some k \<Rightarrow> if \<not> isInterrupted e then [OnEnd k] else []))"

definition utterance_onerror :: "engine \<Rightarrow> engine \<times> effect list" where
  "utterance_onerror e =
     (e\<lparr>isSpeaking := False, isPlaying := False\<rparr>, [ConsoleError ''Speech error''])"

definition interrupt :: "engine \<Rightarrow> string \<Rightarrow> engine \<times> effect list" where
  "interrupt e reason =
     (let e1 = e\<lparr>isInterrupted := True\<rparr>;
          (e2, fx2) = stopSpeaking e1;
          fx3 = (if wsOpen e2 then [WsSend ''interrupt''] else []);
          (r, e3, fx5) = engine_startListening e2
      in (e3, [ConsoleWarn ''INTERRUPT''] @ fx2 @ fx3 @ [InterruptCallbacks reason] @ fx5))"

definition onVoiceActivityDetected :: "engine \<Rightarrow> engine \<times> effect list" where
  "onVoiceActivityDetected e =
     (if \<not> vadDetected e
      then (let e1 = e\<lparr>vadDetected := True\<rparr>;
                (e2, fx2) = (if isSpeaking e1 then interrupt e1 ''vad_detected'' else (e1, []))
            in (e2,
                [ConsoleLog ''Voice activity detected''] @ fx2
                @ (if wsOpen e2 then [WsSend ''vad_detected''] else [])
                @ [VadCallbacks, SetTimeout VadReset 1000]))
      else (e, []))"

text \<open>\<open>_calculateRMS\<close>: the loop that adds the squares to \<open>sum\<close>, starting from 0, then
  \<open>Math.sqrt(sum / buffer.length)\<close>, every step rounded as the program rounds it.  On
  an empty buffer the quotient is 0 / 0 and the result NaN.\<close>

fun sum_squares :: "jsnum list \<Rightarrow> jsnum \<Rightarrow> jsnum" where
  "sum_squares [] s = s"
| "sum_squares (x # xs) s = sum_squares xs (dadd s (dmul x x))"

definition calculateRMS :: "jsnum list \<Rightarrow> jsnum" where
  "calculateRMS buffer =
     dsqrt (ddiv (sum_squares buffer (Fin 0)) (Fin (of_nat (length buffer))))"

text \<open>\<open>_sendAudioToBackend\<close>, with \<open>Date.now()\<close> as an argument; the payload is not
  modelled.\<close>

definition sendAudioToBackend :: "engine \<Rightarrow> int \<Rightarrow> engine \<times> effect list" where
  "sendAudioToBackend e now =
     (if (case lastSendTime e of None \<Rightarrow> True | Some t \<Rightarrow> t = 0 \<or> now - t > 100)
      then (e\<lparr>lastSendTime := Some now\<rparr>, (if wsOpen e then [WsSend ''audio_stream''] else []))
      else (e, []))"

text \<open>\<open>processor.onaudioprocess\<close>: one audio frame.\<close>

definition onaudioprocess :: "engine \<Rightarrow> jsnum list \<Rightarrow> int \<Rightarrow> engine \<times> effect list" where
  "onaudioprocess e inputData now =
     (if \<not> isListening e then (e, [])
      else (let rms = calculateRMS inputData;
                (e1, fx1) =
                  (if js_gt rms (vadThreshold e)
                   then (let e' = e\<lparr>vadFrameCount := vadFrameCount e + 1\<rparr> in
                         if vadFrameCount e' \<ge> vadConsecutiveFrames e'
                         then (let (e'', fx) = onVoiceActivityDetected e'
                               in (e''\<lparr>vadFrameCount := 0\<rparr>, fx))
                         else (e', []))
                   else (e\<lparr>vadFrameCount := 0\<rparr>, []));
                (e2, fx2) = sendAudioToBackend e1 now
            in (e2, fx1 @ fx2)))"

text \<open>The callback of the one-second timer set by a detection.\<close>

definition vad_reset :: "engine \<Rightarrow> engine \<times> effect list" where
  "vad_reset e = (e\<lparr>vadDetected := False\<rparr>, [])"

text \<open>\<open>setVADSensitivity(sensitivity)\<close> and \<open>destroy()\<close>.\<close>

definition setVADSensitivity :: "engine \<Rightarrow> jsnum \<Rightarrow> engine \<times> effect list" where
  "setVADSensitivity e sens =
     (e\<lparr>vadThreshold := dmul (to_double (2 / 100)) (dsub (Fin 1) sens)\<rparr>,
      [ConsoleLog ''VAD sensitivity set''])"

definition destroy :: "engine \<Rightarrow> engine \<times> effect list" where
  "destroy e =
     (let (e1, fx1) = engine_stopListening e;
          (e2, fx2) = stopSpeaking e1
      in (e2\<lparr>audioContext := None\<rparr>, fx1 @ fx2 @ [ConsoleLog ''Audio engine destroyed'']))"

text \<open>Everything that can happen to an engine, one event at a time (JavaScript runs each
  handler to completion).  \<open>UtteranceStart\<close> is the browser starting to play and calling
  \<open>onstart\<close>; \<open>UtteranceEnd onEnd busy\<close> is the browser calling \<open>onend\<close> of an utterance
  that was created with callback \<open>onEnd\<close>, \<open>busy\<close> being the value of
  \<open>speechSynthesis.speaking\<close> afterwards.\<close>

datatype engine_event =
    Frame "jsnum list" int
  | VadResetTimer
  | UtteranceStart
  | UtteranceEnd "nat option" bool
  | UtteranceError bool
  | SocketState bool
  | CallInitialize init_outcome
  | CallStartListening
  | CallStopListening
  | CallStartSpeaking string "nat option"
  | CallStopSpeaking
  | CallInterrupt string
  | CallSetVADSensitivity jsnum
  | CallDestroy

fun engine_step :: "engine \<Rightarrow> engine_event \<Rightarrow> engine \<times> effect list" where
  "engine_step e (Frame buf now) = onaudioprocess e buf now"
| "engine_step e VadResetTimer = vad_reset e"
| "engine_step e UtteranceStart = utterance_onstart (e\<lparr>synthSpeaking := True\<rparr>)"
| "engine_step e (UtteranceEnd onEnd busy) = utterance_onend (e\<lparr>synthSpeaking := busy\<rparr>) onEnd"
| "engine_step e (UtteranceError busy) = utterance_onerror (e\<lparr>synthSpeaking := busy\<rparr>)"
| "engine_step e (SocketState b) = (e\<lparr>wsOpen := b\<rparr>, [])"
| "engine_step e (CallInitialize outcome) = snd (engine_initialize e outcome)"
| "engine_step e CallStartListening = snd (engine_startListening e)"
| "engine_step e CallStopListening = engine_stopListening e"
| "engine_step e (CallStartSpeaking text onEnd) = startSpeaking e text onEnd"
| "engine_step e CallStopSpeaking = stopSpeaking e"
| "engine_step e (CallInterrupt reason) = interrupt e reason"
| "engine_step e (CallSetVADSensitivity sens) = setVADSensitivity e sens"
| "engine_step e CallDestroy = destroy e"

fun engine_run :: "engine \<Rightarrow> engine_event list \<Rightarrow> engine \<times> effect list" where
  "engine_run e [] = (e, [])"
| "engine_run e (ev # evs) =
     (let (e1, fx1) = engine_step e ev;
          (e2, fx2) = engine_run e1 evs
      in (e2, fx1 @ fx2))"


section \<open>The recognition and speech handlers of script.js\<close>

text \<open>
  The global \<open>state\<close> object, with the two settings the handlers read and the global
  \<open>wakeWordDetector\<close>.  \<open>state_recognition\<close> is \<open>None\<close> while \<open>state.recognition\<close> is
  null and otherwise holds the state of the browser's recognition object;
  \<open>state_synthesis\<close> says whether \<open>window.speechSynthesis\<close> exists.  The detector is
  installed by \<open>initWakeWordDetection\<close>; that function and the callback it registers
  are not part of the model.
\<close>

record app =
  state_isListening :: bool
  state_isSpeaking :: bool
  state_isRecognitionActive :: bool
  state_continuousListening :: bool
  state_recognition :: "sr_state option"
  state_synthesis :: bool
  alwaysListening :: bool
  voiceEnabled :: bool
  wakeWordDetector :: "detector option"

definition init_state :: app where
  "init_state =
     \<lparr>state_isListening = False, state_isSpeaking = False,
      state_isRecognitionActive = False, state_continuousListening = False,
      state_recognition = None, state_synthesis = True,
      alwaysListening = True, voiceEnabled = True, wakeWordDetector = None\<rparr>"

definition initSpeechRecognition :: "app \<Rightarrow> bool \<Rightarrow> app \<times> effect list" where
  "initSpeechRecognition s supported =
     (if \<not> supported
      then (s, [ConsoleWarn ''Speech recognition not supported'',
                UpdateStatus ''Speech recognition not available'' ''warning''])
      else (s\<lparr>state_recognition := Some SRIdle\<rparr>, []))"

text \<open>\<open>stopListening()\<close>; a sum for the same reason as the detector's methods.\<close>

definition stopListening :: "app \<Rightarrow> js_error + (app \<times> effect list)" where
  "stopListening s =
     (let s1 = s\<lparr>state_isListening := False, state_isRecognitionActive := False,
                  state_continuousListening := False\<rparr>;
          fx1 = [Ui ''idle'', UpdateStatus ''Ready'' ''success'']
      in case state_recognition s1 of
           None \<Rightarrow> Inr (s1, fx1 @ [SetTimeout HideTranscription 3000])
         | Some r \<Rightarrow>
             (case sr_stop r of
                Inr r' \<Rightarrow>
                  Inr (s1\<lparr>state_recognition := Some r'\<rparr>,
                       fx1 @ [RecognitionStop, SetTimeout HideTranscription 3000])
              | Inl e \<Rightarrow> Inr (s1, fx1 @ [SetTimeout HideTranscription 3000])))"

text \<open>\<open>startListening(continuous)\<close>; the parameter is called \<open>cont\<close> here.\<close>

definition startListening :: "app \<Rightarrow> bool \<Rightarrow> app \<times> effect list" where
  "startListening s cont =
     (case state_recognition s of
        None \<Rightarrow> (s, [Alert ''Speech recognition is not supported in your browser''])
      | Some r \<Rightarrow>
          if state_isRecognitionActive s
          then (case sr_stop r of
                  Inr r' \<Rightarrow>
                    (s\<lparr>state_recognition := Some r'\<rparr>,
                     [ConsoleWarn ''Recognition already active, stopping first'',
                      RecognitionStop, SetTimeout (RetryStartListening cont) 300])
                | Inl e \<Rightarrow>
                    (s, [ConsoleWarn ''Recognition already active, stopping first'',
                         SetTimeout (RetryStartListening cont) 300]))
          else (let s1 = s\<lparr>state_continuousListening := cont,
                            state_isListening := True\<rparr>;
                    fx1 = [Ui ''listening'',
                           (if cont
                            then UpdateStatus ''Continuous mode - Always listening'' ''success''
                            else UpdateStatus ''Listening - Speak now!'' ''success'')]
                in case sr_start r of
                     Inr r' \<Rightarrow>
                       (s1\<lparr>state_recognition := Some r', state_isRecognitionActive := True\<rparr>,
                        fx1 @ [RecognitionStart])
                   | Inl e \<Rightarrow>
                       (let s2 = s1\<lparr>state_isListening := False,
                                      state_isRecognitionActive := False\<rparr>;
                            fx2 = fx1 @ [ConsoleError ''Failed to start recognition'',
                                         ConsoleError ''Error details'', Ui ''idle'']
                        in if message e \<noteq> [] \<and> str_includes (message e) ''permission''
                           then (s2, fx2 @ [UpdateStatus ''Microphone access denied'' ''error'',
                                            Alert ''SMARTII needs microphone access''])
                           else if message e \<noteq> [] \<and> str_includes (message e) ''already started''
                           then (s2, fx2 @ [ConsoleWarn ''Recognition already started, retrying'',
                                            SetTimeout (ForceRetryStartListening cont) 500])
                           else (s2, fx2 @ [UpdateStatus ''Failed to start'' ''error'',
                                            Alert ''Voice recognition error'']))))"

definition toggleListening :: "app \<Rightarrow> bool \<Rightarrow> app \<times> effect list" where
  "toggleListening s isMobile =
     (if state_isListening s
      then (case stopListening s of Inl e \<Rightarrow> (s, [Uncaught e]) | Inr r \<Rightarrow> r)
      else startListening s isMobile)"

text \<open>The four handlers installed by \<open>initSpeechRecognition\<close>.  \<open>onresult\<close> is given the
  results from \<open>event.resultIndex\<close> on, each with its first alternative's transcript
  and its \<open>isFinal\<close> flag.\<close>

definition recognition_onstart :: "app \<Rightarrow> app \<times> effect list" where
  "recognition_onstart s =
     (s\<lparr>state_isListening := True, state_isRecognitionActive := True\<rparr>,
      [Ui ''listening'', UpdateStatus ''Listening - Speak now!'' ''success''])"

fun interimTranscript :: "(string \<times> bool) list \<Rightarrow> string" where
  "interimTranscript [] = []"
| "interimTranscript ((t, isFinal) # rs) =
     (if isFinal then interimTranscript rs else t @ interimTranscript rs)"

fun finalTranscript :: "(string \<times> bool) list \<Rightarrow> string" where
  "finalTranscript [] = []"
| "finalTranscript ((t, isFinal) # rs) =
     (if isFinal then t @ finalTranscript rs else finalTranscript rs)"

definition recognition_onresult :: "app \<Rightarrow> (string \<times> bool) list \<Rightarrow> app \<times> effect list" where
  "recognition_onresult s results =
     (let fx1 = (if interimTranscript results \<noteq> [] then [Ui ''interim transcript''] else [])
      in if finalTranscript results \<noteq> []
         then (if \<not> state_continuousListening s
               then (case stopListening s of
                       Inl e \<Rightarrow> (s, fx1 @ [Ui ''final transcript'', Uncaught e])
                     | Inr (s1, fx2) \<Rightarrow>
                         (s1, fx1 @ [Ui ''final transcript''] @ fx2
                              @ [SetTimeout (ProcessMessage (finalTranscript results)) 200]))
               else (s, fx1 @ [Ui ''final transcript'',
                               SetTimeout (ProcessMessage (finalTranscript results)) 200]))
         else (s, fx1))"

definition recognition_onerror :: "app \<Rightarrow> string \<Rightarrow> app \<times> effect list" where
  "recognition_onerror s err =
     (let s1 = s\<lparr>state_isRecognitionActive := False\<rparr>
      in if err = ''aborted'' then (s1, [])
         else if err = ''no-speech''
         then (if state_continuousListening s1 \<and> state_isListening s1
               then (s1, [SetTimeout NoSpeechRestartContinuous 300])
               else (s1, [UpdateStatus ''Still listening - Speak now!'' ''success'',
                          SetTimeout NoSpeechRestartSingle 300]))
         else (case stopListening s1 of
                 Inl e \<Rightarrow> (s1, [Uncaught e])
               | Inr (s2, fx2) \<Rightarrow>
                   if err = ''not-allowed'' \<or> err = ''permission-denied''
                   then (s2, fx2 @ [UpdateStatus ''Microphone access denied'' ''error'',
                                    Alert ''SMARTII needs microphone access to work''])
                   else (s2, fx2 @ [UpdateStatus (''Error: '' @ err) ''error''])))"

definition recognition_onend :: "app \<Rightarrow> app \<times> effect list" where
  "recognition_onend s =
     (let s1 = s\<lparr>state_isRecognitionActive := False\<rparr>
      in if state_isListening s1 \<and> \<not> state_isSpeaking s1
         then (s1, [SetTimeout OnEndRestart 100, Ui ''sphere off''])
         else (s1, [Ui ''idle'', Ui ''sphere off'']))"

text \<open>\<open>state.recognition.start()\<close> inside \<open>try\<close>/\<open>catch\<close>, as the two no-speech timers call
  it, and bare, as the timer of \<open>onend\<close> calls it (the \<open>try\<close> there encloses
  \<open>setTimeout\<close>, not the callback).\<close>

definition try_restart :: "app \<Rightarrow> app \<times> effect list" where
  "try_restart s =
     (case state_recognition s of
        None \<Rightarrow> (s, [ConsoleError ''Restart failed''])
      | Some r \<Rightarrow>
          (case sr_start r of
             Inr r' \<Rightarrow> (s\<lparr>state_recognition := Some r'\<rparr>, [RecognitionStart])
           | Inl e \<Rightarrow> (s, [ConsoleError ''Restart failed''])))"

definition bare_restart :: "app \<Rightarrow> app \<times> effect list" where
  "bare_restart s =
     (case state_recognition s of
        None \<Rightarrow> (s, [Uncaught (JsError ''state.recognition is null'')])
      | Some r \<Rightarrow>
          (case sr_start r of
             Inr r' \<Rightarrow> (s\<lparr>state_recognition := Some r'\<rparr>, [RecognitionStart])
           | Inl e \<Rightarrow> (s, [Uncaught e])))"

text \<open>\<open>speakText(text)\<close> and the two handlers it installs on the utterance.\<close>

definition speakText :: "app \<Rightarrow> string \<Rightarrow> app \<times> effect list" where
  "speakText s text =
     (if \<not> state_synthesis s then (s, [])
      else (case (case wakeWordDetector s of
                    None \<Rightarrow> Inr (s, [])
                  | Some d \<Rightarrow>
                      if isActive d
                      then (case stop d of
                              Inl e \<Rightarrow> Inl e
                            | Inr (u, d', fx) \<Rightarrow>
                                Inr (s\<lparr>wakeWordDetector := Some d'\<rparr>,
                                     fx @ [ConsoleLog ''Wake word stopped during speech'']))
                      else Inr (s, []))
            of Inl e \<Rightarrow> (s, [Uncaught e])
             | Inr (s1, fx1) \<Rightarrow>
                 (let (s2, fx2) =
                        (case state_recognition s1 of
                           None \<Rightarrow> (s1, [])
                         | Some r \<Rightarrow>
                             if state_isListening s1
                             then (case sr_stop r of
                                     Inr r' \<Rightarrow>
                                       (s1\<lparr>state_recognition := Some r',
                                           state_isListening := False,
                                           state_isRecognitionActive := False\<rparr>,
                                        [RecognitionStop])
                                   | Inl e \<Rightarrow> (s1, []))
                             else (s1, []))
                  in (s2\<lparr>state_isSpeaking := True\<rparr>,
                      fx1 @ fx2 @ [SynthCancel, SynthSpeak text]))))"

definition speak_onend :: "app \<Rightarrow> app \<times> effect list" where
  "speak_onend s =
     (s\<lparr>state_isSpeaking := False\<rparr>,
      (if alwaysListening s then [SetTimeout ResumeAfterSpeech 2000] else []))"

definition speak_onerror :: "app \<Rightarrow> app \<times> effect list" where
  "speak_onerror s =
     (s\<lparr>state_isSpeaking := False\<rparr>,
      [ConsoleError ''Speech error'']
      @ (if alwaysListening s then [SetTimeout ResumeAfterSpeechError 1500] else []))"

text \<open>The callback of the two resume timers: \<open>startListening()\<close>, then the wake-word
  detector is started again unless it is active.\<close>

definition resume_after_speech :: "app \<Rightarrow> app \<times> effect list" where
  "resume_after_speech s =
     (let (s1, fx1) = startListening s False
      in case wakeWordDetector s1 of
           None \<Rightarrow> (s1, fx1)
         | Some d \<Rightarrow>
             if \<not> isActive d
             then (case start d of
                     Inl e \<Rightarrow> (s1, fx1 @ [Uncaught e])
                   | Inr (ok, d', fx2) \<Rightarrow> (s1\<lparr>wakeWordDetector := Some d'\<rparr>, fx1 @ fx2))
             else (s1, fx1))"

text \<open>\<open>processUserMessage(text)\<close> up to the point where it awaits the backend, and its
  continuation once the reply text is there (opening a URL of the reply is left out).\<close>

definition processUserMessage :: "app \<Rightarrow> string \<Rightarrow> app \<times> effect list" where
  "processUserMessage s text =
     (if trim text = [] then (s, [])
      else (let (s1, fx1) =
                  (case state_recognition s of
                     None \<Rightarrow> (s, [])
                   | Some r \<Rightarrow>
                       if state_isListening s
                       then (case sr_stop r of
                               Inr r' \<Rightarrow>
                                 (s\<lparr>state_recognition := Some r', state_isListening := False,
                                    state_isRecognitionActive := False\<rparr>, [RecognitionStop])
                             | Inl e \<Rightarrow> (s, []))
                       else (s, []));
                lowerText = toLowerCase text
            in if str_includes lowerText ''stop listening'' \<or> str_includes lowerText ''deactivate''
                  \<or> str_includes lowerText ''go to sleep''
               then (let fx2 = [AddMessage text ''user'',
                                AddMessage ''Stopped listening.'' ''assistant''];
                         (s3, fx3) = (if voiceEnabled s1 then speakText s1 ''Stopped listening.''
                                      else (s1, []));
                         s4 = s3\<lparr>alwaysListening := False\<rparr>
                     in case stopListening s4 of
                          Inl e \<Rightarrow> (s4, fx1 @ fx2 @ fx3 @ [Uncaught e])
                        | Inr (s5, fx5) \<Rightarrow> (s5, fx1 @ fx2 @ fx3 @ fx5))
               else (s1, fx1 @ [AddMessage text ''user'', Ui ''typing'',
                                UpdateStatus ''Processing...'' ''info'', BackendRequest text])))"

definition backend_reply :: "app \<Rightarrow> string \<Rightarrow> app \<times> effect list" where
  "backend_reply s text =
     (let (s1, fx1) = (if voiceEnabled s then speakText s text else (s, []))
      in (s1, [Ui ''typing off'', AddMessage text ''assistant''] @ fx1
              @ [UpdateStatus ''Ready'' ''success'']))"

text \<open>What each timer's callback does to the page.  \<open>VadReset\<close> is the audio engine's
  timer; the page never creates an engine (\<open>state.audioEngine\<close> stays null).\<close>

fun timer_callback :: "app \<Rightarrow> timer \<Rightarrow> app \<times> effect list" where
  "timer_callback s NoSpeechRestartContinuous =
     (if state_continuousListening s \<and> state_isListening s then try_restart s else (s, []))"
| "timer_callback s NoSpeechRestartSingle =
     (if state_isListening s \<and> \<not> state_continuousListening s then try_restart s else (s, []))"
| "timer_callback s OnEndRestart =
     (if state_isListening s \<and> \<not> state_isRecognitionActive s then bare_restart s else (s, []))"
| "timer_callback s (RetryStartListening cont) = startListening s cont"
| "timer_callback s (ForceRetryStartListening cont) =
     startListening (s\<lparr>state_isRecognitionActive := False\<rparr>) cont"
| "timer_callback s (ProcessMessage text) = processUserMessage s text"
| "timer_callback s HideTranscription = (s, [Ui ''transcription hidden''])"
| "timer_callback s ResumeAfterSpeech = resume_after_speech s"
| "timer_callback s ResumeAfterSpeechError = resume_after_speech s"
| "timer_callback s WakePause =
     (case wakeWordDetector s of
        None \<Rightarrow> (s, [])
      | Some d \<Rightarrow> (let (d', fx) = wake_pause d in (s\<lparr>wakeWordDetector := Some d'\<rparr>, fx)))"
| "timer_callback s VadReset = (s, [])"

text \<open>The key combination Ctrl+Shift+L of \<open>setupEventListeners\<close>.\<close>

definition continuous_shortcut :: "app \<Rightarrow> app \<times> effect list" where
  "continuous_shortcut s =
     (if state_continuousListening s
      then (case stopListening s of
              Inl e \<Rightarrow> (s, [Uncaught e])
            | Inr (s1, fx1) \<Rightarrow>
                (s1, fx1 @ [AddMessage ''Continuous listening disabled'' ''assistant'']))
      else (let (s1, fx1) = startListening s True
            in (s1, fx1 @ [AddMessage ''Continuous listening enabled'' ''assistant''])))"

text \<open>The events the page reacts to: the four recognition events, a timer running its
  callback, the end or failure of the utterance \<open>speakText\<close> created, the microphone
  button (with what the user-agent test gave), the key combination, a message typed
  or recognised, and the reply of the backend.  \<open>RecOnEnd\<close> is the browser ending a
  recognition run: the object is idle again when \<open>onend\<close> is called.\<close>

datatype app_event =
    RecOnStart
  | RecOnResult "(string \<times> bool) list"
  | RecOnError string
  | RecOnEnd
  | TimerFired timer
  | SpeechEnd
  | SpeechError
  | UserToggle bool
  | UserContinuousShortcut
  | UserMessage string
  | BackendReply string

fun app_step :: "app \<Rightarrow> app_event \<Rightarrow> app \<times> effect list" where
  "app_step s RecOnStart = recognition_onstart s"
| "app_step s (RecOnResult results) = recognition_onresult s results"
| "app_step s (RecOnError err) = recognition_onerror s err"
| "app_step s RecOnEnd =
     recognition_onend
       (s\<lparr>state_recognition := (case state_recognition s of None \<Rightarrow> None | Some r \<Rightarrow> Some SRIdle)\<rparr>)"
| "app_step s (TimerFired t) = timer_callback s t"
| "app_step s SpeechEnd = speak_onend s"
| "app_step s SpeechError = speak_onerror s"
| "app_step s (UserToggle isMobile) = toggleListening s isMobile"
| "app_step s UserContinuousShortcut = continuous_shortcut s"
| "app_step s (UserMessage text) = processUserMessage s text"
| "app_step s (BackendReply text) = backend_reply s text"

fun app_run :: "app \<Rightarrow> app_event list \<Rightarrow> app \<times> effect list" where
  "app_run s [] = (s, [])"
| "app_run s (ev # evs) =
     (let (s1, fx1) = app_step s ev;
          (s2, fx2) = app_run s1 evs
      in (s2, fx1 @ fx2))"

section \<open>Scenario states and trace predicates\<close>

text \<open>Concrete objects reached through the code's own entry points, and the predicates
  over effect lists used to state the properties.\<close>

definition configured :: "string list \<Rightarrow> detector" where
  "configured phrases = new_detector\<lparr>wakeWords := phrases\<rparr>"

text \<open>A detector after \<open>initialize()\<close> and \<open>start()\<close>, and the same with a callback
  registered.\<close>

definition active_detector :: detector where
  "active_detector =
     (case start (fst (snd (initialize new_detector True))) of
        Inl e \<Rightarrow> new_detector
      | Inr (ok, d, fx) \<Rightarrow> d)"

definition wake_listening :: detector where
  "wake_listening = onWakeWord active_detector"


text \<open>The mean of the squares of a list of samples in exact arithmetic, with no
  rounding; the root mean square is its square root.\<close>

definition mean_square :: "rat list \<Rightarrow> rat" where
  "mean_square xs = sum_list (map (\<lambda>x. x * x) xs) / of_nat (length xs)"

text \<open>Three frames.  The first has RMS 1/64, above the threshold 0.01, although its
  first sample is 0 and the mean of its absolute values is below the threshold.  The
  second has RMS 1/128, below the threshold, although its first and largest sample is
  above it.  The third consists of three single-precision samples whose exact root
  mean square lies above the double 0.01, while the program's arithmetic returns the
  double 0.01 itself.\<close>

definition loud_samples :: "rat list" where
  "loud_samples = [0, 0, 0, 1 / 32]"

definition quiet_samples :: "rat list" where
  "quiet_samples = [1 / 64, 0, 0, 0]"

definition edge_samples :: "rat list" where
  "edge_samples = [10445597 / 2 ^ 30, 15387201 / 2 ^ 30, 9339979 / 2 ^ 45]"

definition loud_frame :: "jsnum list" where
  "loud_frame = map Fin loud_samples"

definition quiet_frame :: "jsnum list" where
  "quiet_frame = map Fin quiet_samples"

definition edge_frame :: "jsnum list" where
  "edge_frame = map Fin edge_samples"

definition listening_engine :: engine where
  "listening_engine =
     fst (engine_run (new_engine True) [CallInitialize (InitOk CtxRunning), CallStartListening])"

definition speaking_engine :: engine where
  "speaking_engine =
     fst (engine_run (new_engine True) [CallStartSpeaking ''hello'' (Some 0), UtteranceStart])"


text \<open>An engine on which \<open>startSpeaking\<close> has been called and the browser has not yet
  reported the start of playback.\<close>

definition queued_engine :: engine where
  "queued_engine =
     fst (engine_run (new_engine True)
            [CallInitialize (InitOk CtxRunning), CallStartSpeaking ''hello'' (Some 0)])"


definition is_startSpeaking :: "engine_event \<Rightarrow> bool" where
  "is_startSpeaking ev = (case ev of CallStartSpeaking t onEnd \<Rightarrow> True | _ \<Rightarrow> False)"



definition ready_app :: app where
  "ready_app = fst (initSpeechRecognition init_state True)"

definition listening_app :: app where
  "listening_app = fst (app_run ready_app [UserToggle False, RecOnStart])"

definition after_reply_in_continuous_mode :: app where
  "after_reply_in_continuous_mode =
     fst (app_run ready_app
            [UserContinuousShortcut, RecOnStart, RecOnResult [(''hello'', True)],
             TimerFired (ProcessMessage ''hello''), RecOnEnd, BackendReply ''ok'',
             SpeechEnd])"

text \<open>One no-speech failure of the recognition engine in single-shot mode, as the
  browser delivers it: the error, the end of the run, the 100 ms timer of \<open>onend\<close>, the
  start of the new run, and the 300 ms timer of \<open>onerror\<close>.\<close>

definition no_speech_round :: "app_event list" where
  "no_speech_round =
     [RecOnError ''no-speech'', RecOnEnd, TimerFired OnEndRestart, RecOnStart,
      TimerFired NoSpeechRestartSingle]"

fun rounds :: "nat \<Rightarrow> app_event list" where
  "rounds 0 = []"
| "rounds (Suc n) = no_speech_round @ rounds n"

definition listening_single :: "app \<Rightarrow> bool" where
  "listening_single s =
     (state_isListening s \<and> \<not> state_continuousListening s \<and> \<not> state_isSpeaking s
      \<and> state_isRecognitionActive s \<and> state_recognition s = Some SRStarted)"

text \<open>What the page shows for a failure it gives up on: a status of level \<open>error\<close> or
  an alert.  The timers that start recognition again.\<close>

fun is_fatal :: "effect \<Rightarrow> bool" where
  "is_fatal (UpdateStatus m level) = (level = ''error'')"
| "is_fatal (Alert m) = True"
| "is_fatal x = False"

fun is_restart_timer :: "effect \<Rightarrow> bool" where
  "is_restart_timer (SetTimeout t ms) =
     (t = NoSpeechRestartContinuous \<or> t = NoSpeechRestartSingle \<or> t = OnEndRestart)"
| "is_restart_timer x = False"

section \<open>Properties of the wake phrase matcher\<close>

lemmas matcher_defs = isWakeWord_def Let_def

lemma startsWith_iff: "startsWith t w \<longleftrightarrow> (\<exists>s. t = w @ s)"
  by (induction t w rule: startsWith.induct) auto

text \<open>\<open>str_includes\<close> is substring containment.\<close>

lemma str_includes_iff: "str_includes t w \<longleftrightarrow> (\<exists>p s. t = p @ w @ s)"
proof (induction t)
  case Nil
  then show ?case by (cases w) auto
next
  case (Cons c cs)
  show ?case
  proof
    assume "str_includes (c # cs) w"
    then consider "startsWith (c # cs) w" | "str_includes cs w" by auto
    then show "\<exists>p s. c # cs = p @ w @ s"
    proof cases
      case 1
      then obtain s where "c # cs = w @ s" using startsWith_iff by blast
      then have "c # cs = [] @ w @ s" by simp
      then show ?thesis by blast
    next
      case 2
      then obtain p s where "cs = p @ w @ s" using Cons.IH by blast
      then have "c # cs = (c # p) @ w @ s" by simp
      then show ?thesis by blast
    qed
  next
    assume "\<exists>p s. c # cs = p @ w @ s"
    then obtain p s where ps: "c # cs = p @ w @ s" by blast
    show "str_includes (c # cs) w"
    proof (cases p)
      case Nil
      then have "startsWith (c # cs) w" using ps startsWith_iff by auto
      then show ?thesis by simp
    next
      case (Cons a p')
      then have "cs = p' @ w @ s" using ps by simp
      then have "str_includes cs w" using Cons.IH by blast
      then show ?thesis by simp
    qed
  qed
qed

lemma isWakeWord_frame: "snd (isWakeWord d t) = (d, [])"
  by (simp add: matcher_defs)

lemma isWakeWord_reads_wakeWords:
  "wakeWords d' = wakeWords d \<Longrightarrow> fst (isWakeWord d' t) = fst (isWakeWord d t)"
  by (simp add: matcher_defs)

lemma isWakeWord_boolean: "\<exists>b. fst (isWakeWord d t) = JSBool b"
  by (cases "direct_match (wakeWords d) (trim (toLowerCase t))";
      cases "fuzzy_match fuzzyPatterns (trim (toLowerCase t))")
     (auto simp: matcher_defs)

lemma norm_hey: "trim (toLowerCase ''HEY   Smartii please'') = ''hey   smartii please''"
  by code_simp

lemma fuzzy_hey: "fuzzy_match fuzzyPatterns ''hey   smartii please''"
  by code_simp

lemma hey_matches: "fst (isWakeWord d ''HEY   Smartii please'') = JSBool True"
  by (simp add: matcher_defs norm_hey fuzzy_hey)

text \<open>
  \<^bold>\<open>C7\<close> (as amended).  With the wake phrase "hey smartii" configured, the matcher
  applied to "HEY   Smartii please" reports a match and applied to "he smart" reports
  none; the same holds for the constructor's phrase list.  What \<open>_isWakeWord\<close> returns
  is a boolean, for every detector and every text, never the phrase; the wake-word
  callback is handed the lower-cased, trimmed transcript ("hey   smartii please").
  The input with three blanks matches whatever the phrase list is, through the fuzzy
  pattern \<open>hey\s+smart\<close>: the blanks inside the text are not collapsed, so the phrase
  "hey smartii" itself is not a substring of it.
\<close>

theorem matcher_scenario:
  "fst (isWakeWord d ''HEY   Smartii please'') = JSBool True
   \<and> fst (isWakeWord (configured [''hey smartii'']) ''he smart'') = JSBool False
   \<and> fst (isWakeWord new_detector ''he smart'') = JSBool False
   \<and> (\<exists>b. fst (isWakeWord d t) = JSBool b)
   \<and> WakeWordCallback ''hey   smartii please''
        \<in> set (snd (wake_onresult wake_listening [''HEY   Smartii please'']))"
proof -
  have a: "fst (isWakeWord (configured [''hey smartii'']) ''he smart'') = JSBool False"
    by code_simp
  have b: "fst (isWakeWord new_detector ''he smart'') = JSBool False"
    by code_simp
  have c: "WakeWordCallback ''hey   smartii please''
        \<in> set (snd (wake_onresult wake_listening [''HEY   Smartii please'']))"
    by code_simp
  show ?thesis using hey_matches [of d] a b c isWakeWord_boolean [of d t] by simp
qed

theorem matcher_scenario_witness:
  "fst (isWakeWord (configured [''hey smartii'']) ''HEY   Smartii please'') = JSBool True
   \<and> fst (isWakeWord (configured [''hey smartii'']) ''he smart'') = JSBool False"
  using matcher_scenario [of "configured [''hey smartii'']" "''he smart''"] by simp

text \<open>The sentence as the specification has it fails: the value returned for
  "HEY   Smartii please" is not the string "hey smartii", the phrase is not even found
  by the direct test, and the callback is not handed the phrase.\<close>

theorem matcher_returns_phrase_counterexample:
  "fst (isWakeWord (configured [''hey smartii'']) ''HEY   Smartii please'')
     \<noteq> JSString ''hey smartii''
   \<and> \<not> direct_match [''hey smartii''] (trim (toLowerCase ''HEY   Smartii please''))
   \<and> WakeWordCallback ''hey smartii''
        \<notin> set (snd (wake_onresult wake_listening [''HEY   Smartii please'']))"
  by code_simp

text \<open>
  \<^bold>\<open>C8\<close>.  The matcher is pure and stateless: a call hands back the detector it was
  given and does nothing to the outside world; its result depends on the detector
  only through the phrase list (the fuzzy patterns are a constant of the method), so
  two detectors with the same phrase list give the same answer on the same text; and
  a second call on the same text gives the answer of the first.
\<close>

theorem isWakeWord_pure:
  "snd (isWakeWord d t) = (d, [])
   \<and> (wakeWords d' = wakeWords d \<longrightarrow> fst (isWakeWord d' t) = fst (isWakeWord d t))
   \<and> fst (isWakeWord (fst (snd (isWakeWord d t))) t) = fst (isWakeWord d t)"
  using isWakeWord_frame [of d t] isWakeWord_reads_wakeWords [of d' d t]
  by simp

theorem isWakeWord_pure_witness:
  "snd (isWakeWord new_detector ''Hey Smartii'') = (new_detector, [])
   \<and> fst (isWakeWord (new_detector\<lparr>isActive := True\<rparr>) ''Hey Smartii'')
       = fst (isWakeWord new_detector ''Hey Smartii'')
   \<and> fst (isWakeWord (fst (snd (isWakeWord new_detector ''Hey Smartii''))) ''Hey Smartii'')
       = fst (isWakeWord new_detector ''Hey Smartii'')"
  using isWakeWord_pure [of new_detector "''Hey Smartii''" "new_detector\<lparr>isActive := True\<rparr>"]
  by (simp add: new_detector_def)

subsection \<open>Letter case\<close>








subsection \<open>Adding a wake word\<close>



lemma addWakeWord_distinct:
  "distinct (wakeWords d) \<Longrightarrow> distinct (wakeWords (fst (addWakeWord d w)))"
  by (simp add: addWakeWord_def)

lemma new_detector_distinct: "distinct (wakeWords new_detector)"
  by (simp add: new_detector_def)

text \<open>The phrase list never holds a phrase twice: the constructor's list does not, and
  \<open>addWakeWord\<close>, the only method that writes the list, keeps it so.\<close>

lemma wakeWords_distinct_after_adding:
  "distinct (wakeWords (fold (\<lambda>w d. fst (addWakeWord d w)) ws new_detector))"
proof -
  have "distinct (wakeWords d) \<Longrightarrow>
          distinct (wakeWords (fold (\<lambda>w d. fst (addWakeWord d w)) ws d))" for d
    by (induction ws arbitrary: d) (simp_all add: addWakeWord_distinct)
  then show ?thesis using new_detector_distinct by blast
qed




section \<open>Properties of the full-duplex audio engine\<close>

lemmas engine_defs =
  onaudioprocess_def onVoiceActivityDetected_def interrupt_def stopSpeaking_def
  engine_startListening_def engine_stopListening_def sendAudioToBackend_def
  startSpeaking_def utterance_onstart_def utterance_onend_def utterance_onerror_def
  vad_reset_def engine_initialize_def setVADSensitivity_def destroy_def

lemma engine_run_Cons:
  "engine_run e (ev # evs) =
     (fst (engine_run (fst (engine_step e ev)) evs),
      snd (engine_step e ev) @ snd (engine_run (fst (engine_step e ev)) evs))"
  by (simp add: split_def Let_def)

subsection \<open>The amplitude of a frame\<close>

text \<open>The value \<open>0.01\<close> of the program is the double next to one hundredth, a little
  above it.\<close>

lemma threshold_value: "to_double (1 / 100) = Fin (5764607523034235 / 2 ^ 59)"
  by code_simp

lemma loud_frame_rms: "calculateRMS loud_frame = Fin (1 / 64)"
  by code_simp



lemma empty_frame_rms: "calculateRMS [] = NaN"
  by code_simp



lemma listening_engine_eq:
  "listening_engine =
     (new_engine True)\<lparr>audioContext := Some CtxRunning, isCapturing := True,
                       isListening := True\<rparr>"
  by (simp add: listening_engine_def engine_defs new_engine_def Let_def)

lemma speaking_engine_eq:
  "speaking_engine =
     (new_engine True)\<lparr>synthSpeaking := True, isPlaying := True,
                       currentUtterance := Some (''hello'', Some 0), isSpeaking := True\<rparr>"
  by (simp add: speaking_engine_def engine_defs new_engine_def Let_def)


lemma queued_engine_eq:
  "queued_engine =
     (new_engine True)\<lparr>audioContext := Some CtxRunning,
                       currentUtterance := Some (''hello'', Some 0),
                       isCapturing := True, isSpeaking := True\<rparr>"
  by (simp add: queued_engine_def engine_defs new_engine_def Let_def)


text \<open>The program decides on the rounded value.  The exact mean square of
  \<open>edge_frame\<close> is larger than the square of the threshold, so its exact root mean
  square is above the threshold; the sum, the quotient and the root as the program
  rounds them end at the threshold itself, and the frame does not count as loud: three
  such frames in a row announce nothing.\<close>

lemma edge_frame_rms: "calculateRMS edge_frame = Fin (5764607523034235 / 2 ^ 59)"
  by code_simp

lemma edge_samples_mean_square:
  "(5764607523034235 / 2 ^ 59) * (5764607523034235 / 2 ^ 59) < mean_square edge_samples"
  by (simp add: mean_square_def edge_samples_def)

lemma rounding_at_the_threshold:
  "(5764607523034235 / 2 ^ 59) * (5764607523034235 / 2 ^ 59) < mean_square edge_samples
   \<and> to_double (1 / 100) = Fin (5764607523034235 / 2 ^ 59)
   \<and> calculateRMS edge_frame = Fin (5764607523034235 / 2 ^ 59)
   \<and> \<not> js_gt (calculateRMS edge_frame) (vadThreshold listening_engine)
   \<and> count_list
        (snd (engine_run listening_engine
               [Frame edge_frame 1000, Frame edge_frame 1128, Frame edge_frame 1256]))
        VadCallbacks = 0"
  using edge_samples_mean_square
  by (simp add: listening_engine_eq new_engine_def engine_defs Let_def edge_frame_rms
                threshold_value)

subsection \<open>One audio frame\<close>






subsection \<open>Detections are spaced by the reset timer\<close>

lemma step_keeps_vadDetected:
  "ev \<noteq> VadResetTimer \<Longrightarrow> vadDetected e \<Longrightarrow> vadDetected (fst (engine_step e ev))"
  by (cases ev)
     (simp_all add: engine_defs Let_def split_def split: option.splits init_outcome.splits)

lemma step_silent_while_detected:
  "vadDetected e \<Longrightarrow> VadCallbacks \<notin> set (snd (engine_step e ev))"
  by (cases ev)
     (simp_all add: engine_defs Let_def split_def split: option.splits init_outcome.splits)

lemma step_detection_latches:
  "VadCallbacks \<in> set (snd (engine_step e ev)) \<Longrightarrow> vadDetected (fst (engine_step e ev))"
  by (cases ev)
     (simp_all add: engine_defs Let_def split_def
               split: option.splits init_outcome.splits if_splits)

lemma run_silent_while_detected:
  "vadDetected e \<Longrightarrow> VadResetTimer \<notin> set evs \<Longrightarrow>
     VadCallbacks \<notin> set (snd (engine_run e evs))"
proof (induction evs arbitrary: e)
  case Nil
  then show ?case by simp
next
  case (Cons ev evs)
  have "ev \<noteq> VadResetTimer" using Cons.prems by auto
  then have "vadDetected (fst (engine_step e ev))"
    using Cons.prems step_keeps_vadDetected by blast
  then have "VadCallbacks \<notin> set (snd (engine_run (fst (engine_step e ev)) evs))"
    using Cons.IH Cons.prems by simp
  then show ?case
    using step_silent_while_detected [OF Cons.prems(1), of ev]
    by (simp add: engine_run_Cons del: engine_run.simps(2))
qed

text \<open>
  \<^bold>\<open>C5\<close> (as amended).  Once a voice-activity detection has been announced, no further
  one is announced before the one-second timer set by that detection has run its
  callback, whatever happens in between (frames of any amplitude, calls of the
  engine's methods, playback events).  A frame below the threshold is neither needed
  nor sufficient for the next detection.
\<close>

theorem vad_debounced_by_timer:
  assumes "VadCallbacks \<in> set (snd (engine_step e ev))" and "VadResetTimer \<notin> set evs"
  shows "VadCallbacks \<notin> set (snd (engine_run (fst (engine_step e ev)) evs))"
  using assms step_detection_latches run_silent_while_detected by blast

theorem vad_debounced_by_timer_witness:
  "VadCallbacks \<in> set (snd (engine_step
       (fst (engine_run listening_engine [Frame loud_frame 1000, Frame loud_frame 1128]))
       (Frame loud_frame 1256)))
   \<and> VadCallbacks \<notin> set (snd (engine_run
       (fst (engine_step
              (fst (engine_run listening_engine [Frame loud_frame 1000, Frame loud_frame 1128]))
              (Frame loud_frame 1256)))
       [Frame loud_frame 1384, Frame loud_frame 1512, Frame loud_frame 1640,
        Frame quiet_frame 1768, Frame loud_frame 1896]))"
proof -
  have fires: "VadCallbacks \<in> set (snd (engine_step
       (fst (engine_run listening_engine [Frame loud_frame 1000, Frame loud_frame 1128]))
       (Frame loud_frame 1256)))"
    by (simp add: listening_engine_eq new_engine_def engine_defs Let_def loud_frame_rms
                  threshold_value)
  have notimer: "VadResetTimer
       \<notin> set [Frame loud_frame 1384, Frame loud_frame 1512, Frame loud_frame 1640,
              Frame quiet_frame 1768, Frame loud_frame 1896]"
    by simp
  show ?thesis using fires vad_debounced_by_timer [OF fires notimer] by simp
qed

text \<open>The sentence as the specification has it fails: twelve frames, 128 ms apart and
  every one above the threshold, with the reset timer running one second after the
  first detection, announce voice activity twice (at the third and at the twelfth
  frame); no frame below the threshold lies between the two announcements.\<close>

theorem vad_edge_triggered_counterexample:
  "js_gt (calculateRMS loud_frame) (vadThreshold listening_engine)
   \<and> count_list
        (snd (engine_run listening_engine
               [Frame loud_frame 1000, Frame loud_frame 1128, Frame loud_frame 1256,
                Frame loud_frame 1384, Frame loud_frame 1512, Frame loud_frame 1640,
                Frame loud_frame 1768, Frame loud_frame 1896, Frame loud_frame 2024,
                Frame loud_frame 2152, VadResetTimer,
                Frame loud_frame 2280, Frame loud_frame 2408]))
        VadCallbacks = 2
   \<and> count_list
        (snd (engine_run listening_engine
               [Frame loud_frame 1000, Frame loud_frame 1128, Frame loud_frame 1256]))
        VadCallbacks = 1"
  by (simp add: listening_engine_eq new_engine_def engine_defs Let_def loud_frame_rms
                threshold_value)

subsection \<open>Interruption and the completion callback\<close>

lemma step_keeps_isInterrupted:
  "\<not> is_startSpeaking ev \<Longrightarrow> isInterrupted e \<Longrightarrow> isInterrupted (fst (engine_step e ev))"
  by (cases ev)
     (simp_all add: engine_defs is_startSpeaking_def Let_def split_def
               split: option.splits init_outcome.splits)

lemma step_no_completion_while_interrupted:
  "isInterrupted e \<Longrightarrow> OnEnd k \<notin> set (snd (engine_step e ev))"
  by (cases ev)
     (simp_all add: engine_defs Let_def split_def split: option.splits init_outcome.splits)

lemma run_no_completion_while_interrupted:
  "isInterrupted e \<Longrightarrow> list_all (\<lambda>ev. \<not> is_startSpeaking ev) evs
     \<Longrightarrow> OnEnd k \<notin> set (snd (engine_run e evs))"
proof (induction evs arbitrary: e)
  case Nil
  then show ?case by simp
next
  case (Cons ev evs)
  have "isInterrupted (fst (engine_step e ev))"
    using Cons.prems step_keeps_isInterrupted by simp
  then have "OnEnd k \<notin> set (snd (engine_run (fst (engine_step e ev)) evs))"
    using Cons.IH Cons.prems by simp
  then show ?case
    using step_no_completion_while_interrupted [OF Cons.prems(1), of k ev]
    by (simp add: engine_run_Cons del: engine_run.simps(2))
qed

lemma interrupt_sets_flag: "isInterrupted (fst (interrupt e reason))"
  by (simp add: engine_defs Let_def split_def split: option.splits)

text \<open>
  \<^bold>\<open>C3\<close> (as amended).  If playback is cancelled through \<open>interrupt()\<close>, then, as long
  as \<open>startSpeaking\<close> is not called again, no \<open>onEnd\<close> callback is invoked afterwards,
  whichever completion events the browser still delivers and whatever else happens to
  the engine.  The suppression rests on the single flag \<open>isInterrupted\<close>; the engine
  keeps no utterance id.
\<close>

theorem completion_suppressed_after_interrupt:
  assumes "list_all (\<lambda>ev. \<not> is_startSpeaking ev) evs"
  shows "OnEnd k \<notin> set (snd (engine_run (fst (interrupt e reason)) evs))"
  using assms interrupt_sets_flag run_no_completion_while_interrupted by blast

theorem completion_suppressed_after_interrupt_witness:
  "OnEnd 0 \<notin> set (snd (engine_run (fst (interrupt speaking_engine ''user_interrupt''))
       [UtteranceEnd (Some 0) False, CallStopSpeaking, UtteranceEnd (Some 0) False]))"
proof -
  have "list_all (\<lambda>ev. \<not> is_startSpeaking ev)
          [UtteranceEnd (Some 0) False, CallStopSpeaking, UtteranceEnd (Some 0) False]"
    by (simp add: is_startSpeaking_def)
  then show ?thesis by (rule completion_suppressed_after_interrupt)
qed

text \<open>The sentence as the specification has it fails, on the assumption it shares with
  the code's own guard, that the browser delivers \<open>onend\<close> for a cancelled utterance.
  While utterance 0 is playing, \<open>stopSpeaking()\<close> cancels it, and its completion event
  then invokes its \<open>onEnd\<close>; and after \<open>interrupt()\<close>, a new \<open>startSpeaking\<close> clears
  the flag, so that the late completion event of utterance 0 invokes its \<open>onEnd\<close>
  too.\<close>

theorem stale_completion_counterexample:
  "SynthCancel \<in> set (snd (engine_step speaking_engine CallStopSpeaking))
   \<and> OnEnd 0 \<in> set (snd (engine_run speaking_engine
        [CallStopSpeaking, UtteranceEnd (Some 0) False]))
   \<and> OnEnd 0 \<in> set (snd (engine_run speaking_engine
        [CallInterrupt ''user_interrupt'', CallStartSpeaking ''next'' (Some 1),
         UtteranceEnd (Some 0) True]))"
  by (simp add: speaking_engine_eq new_engine_def engine_defs Let_def)




text \<open>The statement above promises the call of \<open>speechSynthesis.cancel\<close> only where the
  synthesiser reports that it is speaking, because \<open>stopSpeaking\<close> tests
  \<open>window.speechSynthesis.speaking\<close> and not the engine's own flag.  On an engine that
  is speaking by \<open>isSpeaking\<close> while its utterance is still queued, the interruption
  issues no cancellation and starts capture all the same, and when the browser then
  begins the utterance the engine plays it while it listens.  This is a defect of the
  test in \<open>stopSpeaking\<close>, not a behaviour the engine is meant to have.\<close>

lemma stopSpeaking_skips_queued_utterance:
  "isSpeaking queued_engine \<and> \<not> synthSpeaking queued_engine
   \<and> snd (interrupt queued_engine ''user_interrupt'')
       = [ConsoleWarn ''INTERRUPT'', ConsoleLog ''Speaking STOPPED'',
          WsSend ''interrupt'', InterruptCallbacks ''user_interrupt'',
          ConsoleLog ''Listening started - VAD active'']
   \<and> isListening (fst (interrupt queued_engine ''user_interrupt''))
   \<and> isPlaying (fst (engine_run queued_engine [CallInterrupt ''user_interrupt'', UtteranceStart]))
   \<and> isListening (fst (engine_run queued_engine [CallInterrupt ''user_interrupt'', UtteranceStart]))"
  by (simp add: queued_engine_eq new_engine_def engine_defs Let_def)

section \<open>Properties of the recognition and speech handlers\<close>

lemmas app_defs =
  stopListening_def startListening_def toggleListening_def continuous_shortcut_def
  recognition_onstart_def
  recognition_onresult_def recognition_onerror_def recognition_onend_def
  try_restart_def bare_restart_def speakText_def speak_onend_def speak_onerror_def
  resume_after_speech_def processUserMessage_def backend_reply_def
  sr_start_def sr_stop_def

lemma app_run_append:
  "app_run s (xs @ ys) =
     (fst (app_run (fst (app_run s xs)) ys),
      snd (app_run s xs) @ snd (app_run (fst (app_run s xs)) ys))"
  by (induction xs arbitrary: s) (simp_all add: split_def Let_def)

subsection \<open>Speaking and listening\<close>

text \<open>What \<open>speakText\<close> and \<open>onend\<close> do by themselves: once recognition has been set
  up, \<open>speakText\<close> leaves the page speaking, not listening, and with the wake-word
  detector inactive; and while the page is speaking, \<open>onend\<close> neither starts
  recognition nor schedules a restart.\<close>

lemma speakText_stops_input:
  assumes "state_synthesis s" and "state_recognition s \<noteq> None"
  shows "state_isSpeaking (fst (speakText s t))
       \<and> \<not> state_isListening (fst (speakText s t))
       \<and> (case wakeWordDetector (fst (speakText s t)) of
             None \<Rightarrow> True | Some d \<Rightarrow> \<not> isActive d)"
  using assms
  by (auto simp: speakText_def stop_def sr_stop_def Let_def split_def
           split: option.splits sum.splits if_splits)

lemma onend_guard_while_speaking:
  "state_isSpeaking s \<Longrightarrow>
     \<not> list_ex is_restart_timer (snd (recognition_onend s))
     \<and> RecognitionStart \<notin> set (snd (recognition_onend s))"
  by (simp add: recognition_onend_def Let_def)

text \<open>
  \<^bold>\<open>C1\<close>.  The specification asks that, once the page is speaking, no recognition
  result is processed before the speech has ended or been interrupted.  The two
  lemmas above hold, but the property does not hold for every interleaving:
  \<open>startListening\<close> never looks at \<open>state.isSpeaking\<close>, and the timer that \<open>onend\<close> of
  an utterance sets calls it two seconds later whatever the page is doing then.  In
  the run below a first reply is spoken and ends, a second reply starts being spoken
  within the two seconds, the timer of the first fires and starts recognition, and the
  final transcript that recognition then delivers is handed on for processing while
  \<open>isSpeaking\<close> is still true.
\<close>

theorem transcript_processed_while_speaking:
  "state_isSpeaking
     (fst (app_run ready_app
        [UserMessage ''hi'', BackendReply ''A'', SpeechEnd, UserMessage ''again'',
         BackendReply ''B'', TimerFired ResumeAfterSpeech, RecOnStart]))
   \<and> state_recognition
     (fst (app_run ready_app
        [UserMessage ''hi'', BackendReply ''A'', SpeechEnd, UserMessage ''again'',
         BackendReply ''B'', TimerFired ResumeAfterSpeech, RecOnStart])) = Some SRStarted
   \<and> snd (app_step
     (fst (app_run ready_app
        [UserMessage ''hi'', BackendReply ''A'', SpeechEnd, UserMessage ''again'',
         BackendReply ''B'', TimerFired ResumeAfterSpeech, RecOnStart]))
     (RecOnResult [(''B'', True)]))
     = [Ui ''final transcript'', Ui ''idle'', UpdateStatus ''Ready'' ''success'',
        RecognitionStop, SetTimeout HideTranscription 3000,
        SetTimeout (ProcessMessage ''B'') 200]
   \<and> state_isSpeaking
     (fst (app_run ready_app
        [UserMessage ''hi'', BackendReply ''A'', SpeechEnd, UserMessage ''again'',
         BackendReply ''B'', TimerFired ResumeAfterSpeech, RecOnStart,
         RecOnResult [(''B'', True)]]))"
  by code_simp

subsection \<open>Failures of the recognition engine\<close>

lemma round_effects:
  assumes "listening_single s"
  shows "listening_single (fst (app_run s no_speech_round))
       \<and> snd (app_run s no_speech_round)
          = [UpdateStatus ''Still listening - Speak now!'' ''success'',
             SetTimeout NoSpeechRestartSingle 300, SetTimeout OnEndRestart 100,
             Ui ''sphere off'', RecognitionStart, Ui ''listening'',
             UpdateStatus ''Listening - Speak now!'' ''success'',
             ConsoleError ''Restart failed'']"
  using assms
  by (simp add: listening_single_def no_speech_round_def app_defs Let_def)

lemma rounds_restart:
  "listening_single s \<Longrightarrow>
     listening_single (fst (app_run s (rounds n)))
     \<and> count_list (snd (app_run s (rounds n))) RecognitionStart = n
     \<and> \<not> list_ex is_fatal (snd (app_run s (rounds n)))"
proof (induction n arbitrary: s)
  case 0
  then show ?case by simp
next
  case (Suc n)
  have r: "listening_single (fst (app_run s no_speech_round))"
    using round_effects [OF Suc.prems] by simp
  show ?case
    using Suc.IH [OF r] round_effects [OF Suc.prems]
    by (simp add: app_run_append)
qed

lemma no_speech_always_restarts:
  "list_ex is_restart_timer (snd (recognition_onerror s ''no-speech''))
   \<and> \<not> list_ex is_fatal (snd (recognition_onerror s ''no-speech''))
   \<and> state_isListening (fst (recognition_onerror s ''no-speech'')) = state_isListening s"
  by (simp add: recognition_onerror_def Let_def)

lemma other_error_stops:
  assumes "err \<noteq> ''aborted''" and "err \<noteq> ''no-speech''"
  shows "\<not> state_isListening (fst (recognition_onerror s err))
       \<and> list_ex is_fatal (snd (recognition_onerror s err))
       \<and> \<not> list_ex is_restart_timer (snd (recognition_onerror s err))"
  using assms
  by (simp add: recognition_onerror_def stopListening_def sr_stop_def Let_def
           split: option.splits)

lemma listening_app_single: "listening_single listening_app"
  by code_simp

text \<open>
  \<^bold>\<open>C6\<close> (as amended).  The handlers count no restarts and read no clock.  A no-speech
  failure always schedules a restart after 300 ms, reports nothing fatal and leaves
  \<open>isListening\<close> as it was, however many failures came before: from a page that is
  listening in single-shot mode, \<open>n\<close> no-speech failures in a row lead to \<open>n\<close> starts
  of recognition, for every \<open>n\<close>, and the page is listening as before.  Any other
  failure except \<open>aborted\<close> stops listening at once, is reported as an error, and
  schedules no restart.
\<close>

theorem transient_failures_not_rate_limited:
  "list_ex is_restart_timer (snd (recognition_onerror s ''no-speech''))
   \<and> \<not> list_ex is_fatal (snd (recognition_onerror s ''no-speech''))
   \<and> state_isListening (fst (recognition_onerror s ''no-speech'')) = state_isListening s
   \<and> (listening_single s \<longrightarrow>
        listening_single (fst (app_run s (rounds n)))
        \<and> count_list (snd (app_run s (rounds n))) RecognitionStart = n
        \<and> \<not> list_ex is_fatal (snd (app_run s (rounds n))))
   \<and> (err \<noteq> ''aborted'' \<and> err \<noteq> ''no-speech'' \<longrightarrow>
        \<not> state_isListening (fst (recognition_onerror s err))
        \<and> list_ex is_fatal (snd (recognition_onerror s err))
        \<and> \<not> list_ex is_restart_timer (snd (recognition_onerror s err)))"
  using no_speech_always_restarts [of s] rounds_restart [of s n] other_error_stops [of err s]
  by blast

theorem transient_failures_not_rate_limited_witness:
  "listening_single listening_app
   \<and> count_list (snd (app_run listening_app (rounds 7))) RecognitionStart = 7
   \<and> \<not> list_ex is_fatal (snd (app_run listening_app (rounds 7)))
   \<and> \<not> state_isListening (fst (recognition_onerror listening_app ''network''))
   \<and> list_ex is_fatal (snd (recognition_onerror listening_app ''network''))"
proof -
  have ne: "''network'' \<noteq> ''aborted'' \<and> ''network'' \<noteq> ''no-speech''" by simp
  show ?thesis
    using transient_failures_not_rate_limited [of listening_app 7 "''network''"]
      listening_app_single ne
    by blast
qed

text \<open>The sentence as the specification has it fails: after six no-speech failures, each
  followed by a restart, nothing fatal has been reported, and the seventh failure
  schedules one more restart.\<close>

theorem rate_limit_counterexample:
  "count_list (snd (app_run listening_app (rounds 6))) RecognitionStart = 6
   \<and> \<not> list_ex is_fatal (snd (app_run listening_app (rounds 6)))
   \<and> app_step (fst (app_run listening_app (rounds 6))) (RecOnError ''no-speech'')
       = ((fst (app_run listening_app (rounds 6)))\<lparr>state_isRecognitionActive := False\<rparr>,
          [UpdateStatus ''Still listening - Speak now!'' ''success'',
           SetTimeout NoSpeechRestartSingle 300])"
  by code_simp

subsection \<open>Stopping what is stopped, starting what is started\<close>

lemma detector_stop_inactive: "\<not> isActive d \<Longrightarrow> stop d = Inr ((), d, [])"
  by (simp add: stop_def)

lemma detector_start_active:
  "isActive d \<Longrightarrow> \<exists>fx. fx \<noteq> [] \<and> start d = Inr (False, d, fx)"
  by (simp add: start_def split: option.splits)

lemma detector_never_throws: "(\<exists>r. start d = Inr r) \<and> (\<exists>r. stop d = Inr r)"
  by (auto simp: start_def stop_def sr_start_def sr_stop_def Let_def split: option.splits)

lemma stopListening_result:
  "\<exists>fx. stopListening s =
     Inr (s\<lparr>state_isListening := False, state_isRecognitionActive := False,
            state_continuousListening := False,
            state_recognition :=
              (case state_recognition s of
                 None \<Rightarrow> None
               | Some r \<Rightarrow> Some (if r = SRStarted then SRStopping else r))\<rparr>, fx)
     \<and> UpdateStatus ''Ready'' ''success'' \<in> set fx"
  by (cases "state_recognition s") (simp_all add: stopListening_def sr_stop_def Let_def)

text \<open>
  \<^bold>\<open>C9\<close> (as amended).  None of the calls throws.  \<open>stop()\<close> on an inactive wake-word
  detector does nothing at all.  \<open>start()\<close> on an active detector leaves the detector
  as it is, writes a warning and returns \<open>false\<close>, the value it also returns when it
  fails.  \<open>stopListening()\<close> of the page always clears \<open>isListening\<close>,
  \<open>isRecognitionActive\<close> and \<open>continuousListening\<close>, asks the recognition object to
  stop, and sets the status to "Ready", also when the page was not listening.
\<close>

theorem idempotent_calls:
  "(\<not> isActive d \<longrightarrow> stop d = Inr ((), d, []))
   \<and> (isActive d \<longrightarrow> (\<exists>fx. fx \<noteq> [] \<and> start d = Inr (False, d, fx)))
   \<and> (\<exists>r. start d = Inr r) \<and> (\<exists>r. stop d = Inr r)
   \<and> (\<exists>fx. stopListening s =
         Inr (s\<lparr>state_isListening := False, state_isRecognitionActive := False,
                state_continuousListening := False,
                state_recognition :=
                  (case state_recognition s of
                     None \<Rightarrow> None
                   | Some r \<Rightarrow> Some (if r = SRStarted then SRStopping else r))\<rparr>, fx)
         \<and> UpdateStatus ''Ready'' ''success'' \<in> set fx)"
  using detector_stop_inactive [of d] detector_start_active [of d] detector_never_throws [of d]
    stopListening_result [of s]
  by blast

theorem idempotent_calls_witness:
  "\<not> isActive new_detector
   \<and> stop new_detector = Inr ((), new_detector, [])
   \<and> isActive active_detector
   \<and> start active_detector
       = Inr (False, active_detector, [ConsoleWarn ''Wake word detection already active''])"
proof -
  have a: "\<not> isActive new_detector" by (simp add: new_detector_def)
  have b: "isActive active_detector" by code_simp
  have c: "start active_detector
       = Inr (False, active_detector, [ConsoleWarn ''Wake word detection already active''])"
    by code_simp
  show ?thesis
    using a b c idempotent_calls [of new_detector init_state]
    by blast
qed

text \<open>The sentence as the specification has it fails in two places.  \<open>start()\<close> on an
  active detector returns \<open>false\<close>, not success.  And \<open>stopListening()\<close> on a page that
  is not listening changes the state: after a reply has been spoken in continuous
  mode the page is neither listening nor recognising, and the call (made, for one, by
  the key combination Ctrl+Shift+L) turns continuous mode off, besides what it does
  to the display and the recognition object.\<close>

theorem idempotent_calls_counterexample:
  "isActive active_detector
   \<and> start active_detector
       = Inr (False, active_detector, [ConsoleWarn ''Wake word detection already active''])
   \<and> \<not> state_isListening after_reply_in_continuous_mode
   \<and> \<not> state_isRecognitionActive after_reply_in_continuous_mode
   \<and> stopListening after_reply_in_continuous_mode
       = Inr (after_reply_in_continuous_mode\<lparr>state_continuousListening := False\<rparr>,
              [Ui ''idle'', UpdateStatus ''Ready'' ''success'', RecognitionStop,
               SetTimeout HideTranscription 3000])
   \<and> after_reply_in_continuous_mode\<lparr>state_continuousListening := False\<rparr>
       \<noteq> after_reply_in_continuous_mode"
  by code_simp

end
